theory Spec2Isabelle
  imports Main "HOL-Library.Word"
begin

section \<open>Request options\<close>

text \<open>
  The parts of the DOM type \<open>CredentialCreationOptions\<close> that
  \<open>identifyRegistrationError\<close> reads. An optional property (\<open>p?: T\<close>) is an
  \<open>option\<close>, with \<open>None\<close> for \<open>undefined\<close>; a required one is a plain field. Strings
  stay strings, as they are at run time (\<open>userVerification\<close>, \<open>type\<close>), so that every value
  the comparisons of the source can meet is in the model. The properties \<open>id\<close> of \<open>rp\<close> and
  of \<open>user\<close> and \<open>type\<close> of a parameter are named \<open>rp_id\<close>, \<open>user_id\<close> and \<open>param_type\<close>.
\<close>

type_synonym ref = nat

record AuthenticatorSelectionCriteria =
  requireResidentKey :: "bool option"
  userVerification :: "string option"

record PublicKeyCredentialParameters =
  param_type :: string
  alg :: int

record PublicKeyCredentialRpEntity =
  rp_id :: "string option"

text \<open>\<open>user.id\<close> is a \<open>BufferSource\<close>: a sequence of bytes, \<open>byteLength\<close> its length.\<close>

record PublicKeyCredentialUserEntity =
  user_id :: "8 word list"

definition byteLength :: "8 word list \<Rightarrow> nat" where
  "byteLength b = length b"

record PublicKeyCredentialCreationOptions =
  authenticatorSelection :: "AuthenticatorSelectionCriteria option"
  pubKeyCredParams :: "PublicKeyCredentialParameters list"
  rp :: PublicKeyCredentialRpEntity
  user :: PublicKeyCredentialUserEntity

record CredentialCreationOptions =
  publicKey :: "PublicKeyCredentialCreationOptions option"
  signal :: "ref option"

section \<open>Objects and the store\<close>

text \<open>
  Objects have identity: \<open>===\<close> on objects compares references, and the function returns
  either the reference it was given or one to an object it has just made. The store is
  the list of all objects allocated so far; a reference is an index into it, and \<open>new\<close>
  appends. \<open>ErrorObj\<close> is an \<open>Error\<close> that is not a \<open>WebAuthnError\<close> (a \<open>DOMException\<close>
  raised by the platform, or a plain \<open>Error\<close>), with its \<open>name\<close> and \<open>message\<close>.
\<close>

datatype js_object =
    ErrorObj string string
  | WebAuthnErrorObj string ref
  | AbortControllerObj ref
  | AbortSignalObj bool
  | OptionsObj CredentialCreationOptions

type_synonym store = "js_object list"

definition lookup :: "store \<Rightarrow> ref \<Rightarrow> js_object option" where
  "lookup h r = (if r < length h then Some (h ! r) else None)"

definition alloc :: "js_object \<Rightarrow> store \<Rightarrow> ref \<times> store" where
  "alloc ob h = (length h, h @ [ob])"

text \<open>
  A call either returns a reference or ends abruptly: with a thrown object, or, in the
  model only, because an argument is outside what the model covers. \<open>options\<close> has to be
  a reference to a \<open>CredentialCreationOptions\<close>, and \<open>error\<close> one to an \<open>ErrorObj\<close>: the
  spec's low-level error, "never constructed by this system". The spec does not say which
  \<open>name\<close> a \<open>WebAuthnError\<close> carries, so one passed back in as \<open>error\<close> is not covered.
\<close>

datatype abrupt = Throw ref | OutsideModel

type_synonym outcome = "(abrupt + ref) \<times> store"

text \<open>\<open>Error(message)\<close>: a new plain \<open>Error\<close>, whose \<open>name\<close> is \<open>"Error"\<close>.\<close>

definition new_Error :: "string \<Rightarrow> store \<Rightarrow> ref \<times> store" where
  "new_Error msg h = alloc (ErrorObj ''Error'' msg) h"

text \<open>
  \<open>new AbortController().signal\<close>: the constructor makes a signal that is not aborted
  and a controller that holds it; the expression is the reference to that signal.
\<close>

definition new_AbortController_signal :: "store \<Rightarrow> ref \<times> store" where
  "new_AbortController_signal h =
     (let (s, h1) = alloc (AbortSignalObj False) h;
          (c, h2) = alloc (AbortControllerObj s) h1
      in (s, h2))"

text \<open>
  Modelled from the spec: the class \<open>WebAuthnError\<close> (\<open>./webAuthnError\<close>) is not among the
  sources. The spec gives it as "an error value that carries a human-readable message and
  preserves the original low-level error as a cause", with a constructor
  \<open>(message, cause) -> WebAuthnError\<close> that always succeeds.
\<close>

definition new_WebAuthnError :: "string \<Rightarrow> ref \<Rightarrow> store \<Rightarrow> outcome" where
  "new_WebAuthnError msg cause h = (let (r, h1) = alloc (WebAuthnErrorObj msg cause) h in (Inr r, h1))"

text \<open>A template literal writes \<open>undefined\<close> for a missing string.\<close>

definition template_string :: "string option \<Rightarrow> string" where
  "template_string v = (case v of None \<Rightarrow> ''undefined'' | Some s \<Rightarrow> s)"

text \<open>The ambient value that the function reads: \<open>window.location.hostname\<close>.\<close>

record window =
  hostname :: string

section \<open>identifyRegistrationError\<close>

text \<open>
  The function of \<open>helpers/identifyRegistrationError.ts\<close>, branch by branch. The helper
  \<open>isValidDomain\<close> (\<open>./isValidDomain\<close>) is not among the sources and is a parameter: any
  predicate on strings. \<open>options\<close> is read first, and \<open>error\<close> only once \<open>publicKey\<close> has
  been found.
\<close>

definition identifyRegistrationError ::
  "(string \<Rightarrow> bool) \<Rightarrow> window \<Rightarrow> store \<Rightarrow> ref \<Rightarrow> ref \<Rightarrow> outcome" where
  \<open>identifyRegistrationError isValidDomain win h error options =
    (case lookup h options of
       Some (OptionsObj opts) \<Rightarrow>
        (case publicKey opts of
           None \<Rightarrow>
             (let (e, h1) = new_Error ''options was missing required publicKey property'' h
              in (Inl (Throw e), h1))
         | Some pk \<Rightarrow>
            (case lookup h error of
               Some (ErrorObj name msg) \<Rightarrow>
                 if name = ''AbortError'' then
                   (let (fresh, h1) = new_AbortController_signal h in
                    if signal opts = Some fresh
                    then new_WebAuthnError ''Registration ceremony was sent an abort signal'' error h1
                    else (Inr error, h1))
                 else if name = ''ConstraintError'' then
                   (if Option.bind (authenticatorSelection pk) requireResidentKey = Some True
                    then new_WebAuthnError
                      ''Discoverable credentials were required but no available authenticator supported it''
                      error h
                    else if Option.bind (authenticatorSelection pk) userVerification = Some ''required''
                    then new_WebAuthnError
                      ''User verification was required but no available authenticator supported it''
                      error h
                    else (Inr error, h))
                 else if name = ''InvalidStateError'' then
                   new_WebAuthnError ''The authenticator was previously registered'' error h
                 else if name = ''NotAllowedError'' then
                   (Inr error, h)
                 else if name = ''NotSupportedError'' then
                   (let validPubKeyCredParams =
                          filter (\<lambda>param. param_type param = ''public-key'') (pubKeyCredParams pk)
                    in if length validPubKeyCredParams = 0
                       then new_WebAuthnError
                         ''No entry in pubKeyCredParams was of type "public-key"'' error h
                       else new_WebAuthnError
                         ''No available authenticator supported any of the specified pubKeyCredParams algorithms''
                         error h)
                 else if name = ''SecurityError'' then
                   (let effectiveDomain = hostname win
                    in if \<not> isValidDomain effectiveDomain
                       then new_WebAuthnError (hostname win @ '' is an invalid domain'') error h
                       else if rp_id (rp pk) \<noteq> Some effectiveDomain
                       then new_WebAuthnError
                         (''The RP ID "'' @ template_string (rp_id (rp pk)) @ ''" is invalid for this domain'')
                         error h
                       else (Inr error, h))
                 else if name = ''TypeError'' then
                   (if byteLength (user_id (user pk)) < 1 \<or> byteLength (user_id (user pk)) > 64
                    then new_WebAuthnError ''User ID was not between 1 and 64 characters'' error h
                    else (Inr error, h))
                 else if name = ''UnknownError'' then
                   new_WebAuthnError
                     ''The authenticator was unable to process the specified options, or could not create a new credential''
                     error h
                 else (Inr error, h)
             | _ \<Rightarrow> (Inl OutsideModel, h)))
     | _ \<Rightarrow> (Inl OutsideModel, h))\<close>

text \<open>\<open>ob instanceof WebAuthnError\<close>.\<close>

definition is_WebAuthnError :: "js_object \<Rightarrow> bool" where
  "is_WebAuthnError ob = (case ob of WebAuthnErrorObj m c \<Rightarrow> True | _ \<Rightarrow> False)"

section \<open>Sample requests\<close>

text \<open>
  A request that asks for a discoverable credential and for user verification, with one
  \<open>public-key\<close> parameter (ES256) and a user handle of 64 bytes; a store that holds, in this
  order, the error raised by the platform, a signal that has been aborted, and the options
  that carry that signal; and a stand-in for \<open>isValidDomain\<close> that accepts two host names.
\<close>

definition example_publicKey :: PublicKeyCredentialCreationOptions where
  "example_publicKey =
     \<lparr>authenticatorSelection =
        Some \<lparr>requireResidentKey = Some True, userVerification = Some ''required''\<rparr>,
      pubKeyCredParams = [\<lparr>param_type = ''public-key'', alg = - 7\<rparr>],
      rp = \<lparr>rp_id = Some ''example.com''\<rparr>,
      user = \<lparr>user_id = replicate 64 0\<rparr>\<rparr>"

definition example_options :: "PublicKeyCredentialCreationOptions option \<Rightarrow> CredentialCreationOptions" where
  "example_options pk = \<lparr>publicKey = pk, signal = Some 1\<rparr>"

definition example_store :: "string \<Rightarrow> PublicKeyCredentialCreationOptions option \<Rightarrow> store" where
  "example_store name pk =
     [ErrorObj name ''The operation failed'', AbortSignalObj True, OptionsObj (example_options pk)]"

definition example_isValidDomain :: "string \<Rightarrow> bool" where
  "example_isValidDomain d = (d = ''localhost'' \<or> d = ''example.com'')"

text \<open>
  A request whose caller has made an abort controller of its own, never used it, and
  passed the controller's signal along: the store holds the error raised by the platform,
  that controller, its signal (not aborted), and the options that carry the signal.
\<close>

definition example_unused_controller_store :: store where
  "example_unused_controller_store =
     [ErrorObj ''AbortError'' ''The operation was aborted'', AbortControllerObj 2,
      AbortSignalObj False, OptionsObj \<lparr>publicKey = Some example_publicKey, signal = Some 2\<rparr>]"

section \<open>Allocation\<close>

lemma fresh_signal:
  "new_AbortController_signal h =
     (length h, h @ [AbortSignalObj False, AbortControllerObj (length h)])"
  by (simp add: new_AbortController_signal_def alloc_def)

lemma diagnostic:
  "new_WebAuthnError m c h = (Inr (length h), h @ [WebAuthnErrorObj m c])"
  by (simp add: new_WebAuthnError_def alloc_def)

lemma lookup_append:
  "lookup h a = Some ob \<Longrightarrow> lookup (h @ g) a = Some ob"
  by (auto simp add: lookup_def nth_append split: if_splits)

lemma lookup_fresh: "lookup h (length h + n) = None"
  by (simp add: lookup_def)

lemma example_lookups:
  "lookup (example_store name pk) 0 = Some (ErrorObj name ''The operation failed'')"
  "lookup (example_store name pk) 1 = Some (AbortSignalObj True)"
  "lookup (example_store name pk) 2 = Some (OptionsObj (example_options pk))"
  "length (example_store name pk) = 3"
  by (simp_all add: example_store_def lookup_def)

text \<open>
  Every call on a request with \<open>publicKey\<close> returns: either the reference it was given,
  or a reference to a \<open>WebAuthnError\<close> that it has appended to the store, with the given
  error as cause. The objects \<open>g\<close> in between are the controller and the signal that the
  \<open>AbortError\<close> branch makes for its comparison.
\<close>

lemma typed_call_shape:
  assumes "lookup h options = Some (OptionsObj opts)" and "publicKey opts = Some pk"
    and "lookup h error = Some (ErrorObj name msg)"
  shows "\<exists>g. identifyRegistrationError isValidDomain win h error options = (Inr error, h @ g)
           \<or> (\<exists>m. identifyRegistrationError isValidDomain win h error options =
                 (Inr (length (h @ g)), h @ g @ [WebAuthnErrorObj m error]))"
proof (cases "name = ''AbortError''")
  case True
  let ?g = "[AbortSignalObj False, AbortControllerObj (length h)]"
  from True assms have
    "identifyRegistrationError isValidDomain win h error options = (Inr error, h @ ?g)
     \<or> identifyRegistrationError isValidDomain win h error options =
         (Inr (length (h @ ?g)),
          h @ ?g @ [WebAuthnErrorObj ''Registration ceremony was sent an abort signal'' error])"
    unfolding identifyRegistrationError_def by (simp add: fresh_signal diagnostic)
  then show ?thesis by blast
next
  case False
  with assms have
    "identifyRegistrationError isValidDomain win h error options = (Inr error, h @ [])
     \<or> (\<exists>m. identifyRegistrationError isValidDomain win h error options =
         (Inr (length (h @ [])), h @ [] @ [WebAuthnErrorObj m error]))"
    unfolding identifyRegistrationError_def by (simp add: diagnostic Let_def)
  then show ?thesis by blast
qed

text \<open>
  The signal of the controller that the \<open>AbortError\<close> branch constructs is a new object,
  so no signal that existed before the call is identical to it: whenever \<open>options.signal\<close>
  is absent or refers to an object of the store, an \<open>AbortError\<close> is passed through.
\<close>

lemma abort_allocated_signal:
  assumes "lookup h options = Some (OptionsObj opts)" and "publicKey opts = Some pk"
    and "lookup h error = Some (ErrorObj ''AbortError'' msg)"
    and "signal opts = None \<or> (\<exists>s ob. signal opts = Some s \<and> lookup h s = Some ob)"
  shows "fst (identifyRegistrationError isValidDomain win h error options) = Inr error"
  unfolding identifyRegistrationError_def using assms
  by (auto simp add: fresh_signal diagnostic lookup_def)

section \<open>The claims\<close>

text \<open>
  C1. Whenever \<open>options.publicKey\<close> is present, the call returns normally: a reference
  comes back and nothing is thrown, whatever \<open>error.name\<close> is, for every list of
  \<open>pubKeyCredParams\<close> (the empty one too), every \<open>rp.id\<close> and every host name.
\<close>

theorem returns_normally_with_publicKey:
  assumes "lookup h options = Some (OptionsObj opts)" and "publicKey opts = Some pk"
    and "lookup h error = Some (ErrorObj name msg)"
  shows "\<exists>r h'. identifyRegistrationError isValidDomain win h error options = (Inr r, h')"
  using typed_call_shape [OF assms, of isValidDomain win] by blast

theorem returns_normally_with_publicKey_witness:
  "lookup (example_store ''DataError'' (Some (example_publicKey\<lparr>pubKeyCredParams := []\<rparr>))) 2 =
     Some (OptionsObj (example_options (Some (example_publicKey\<lparr>pubKeyCredParams := []\<rparr>))))
   \<and> publicKey (example_options (Some (example_publicKey\<lparr>pubKeyCredParams := []\<rparr>))) =
       Some (example_publicKey\<lparr>pubKeyCredParams := []\<rparr>)
   \<and> lookup (example_store ''DataError'' (Some (example_publicKey\<lparr>pubKeyCredParams := []\<rparr>))) 0 =
       Some (ErrorObj ''DataError'' ''The operation failed'')
   \<and> (\<exists>r h'. identifyRegistrationError example_isValidDomain \<lparr>hostname = ''localhost''\<rparr>
         (example_store ''DataError'' (Some (example_publicKey\<lparr>pubKeyCredParams := []\<rparr>))) 0 2 =
           (Inr r, h'))"
  using returns_normally_with_publicKey
    [where h = "example_store ''DataError'' (Some (example_publicKey\<lparr>pubKeyCredParams := []\<rparr>))"
       and options = 2 and error = 0 and name = "''DataError''" and msg = "''The operation failed''"
       and opts = "example_options (Some (example_publicKey\<lparr>pubKeyCredParams := []\<rparr>))"
       and pk = "example_publicKey\<lparr>pubKeyCredParams := []\<rparr>"
       and isValidDomain = example_isValidDomain and win = "\<lparr>hostname = ''localhost''\<rparr>"]
  by (simp add: example_lookups example_options_def)

text \<open>
  C2. For an \<open>AbortError\<close> (with \<open>publicKey\<close> present), the claim expects the
  diagnostic "Registration ceremony was sent an abort signal" when \<open>options.signal\<close> is the
  signal of a never-used abort controller. The function does not give it: it compares
  \<open>options.signal\<close> with the signal of a controller that it constructs for the comparison,
  which is a new object and identical to none that the caller can hold. On the request
  whose signal belongs to the caller's own never-used controller, the given error comes
  back, and the store has only gained the controller and the signal of the comparison.
\<close>

theorem abort_error_unused_controller_passes_through:
  "identifyRegistrationError example_isValidDomain \<lparr>hostname = ''localhost''\<rparr>
     example_unused_controller_store 0 3 =
       (Inr 0, example_unused_controller_store @ [AbortSignalObj False, AbortControllerObj 4])"
  unfolding identifyRegistrationError_def
  by (simp add: example_unused_controller_store_def lookup_def fresh_signal)

text \<open>
  C3. When \<open>options.publicKey\<close> is absent, the call throws, for every \<open>error\<close> argument:
  the thrown object is a new plain \<open>Error\<close> with the message "options was missing required
  publicKey property", which is not a \<open>WebAuthnError\<close>, and nothing is returned.
\<close>

theorem missing_publicKey_throws:
  assumes "lookup h options = Some (OptionsObj opts)" and "publicKey opts = None"
  shows "identifyRegistrationError isValidDomain win h error options =
           (Inl (Throw (length h)),
            h @ [ErrorObj ''Error'' ''options was missing required publicKey property''])
         \<and> lookup h (length h) = None
         \<and> \<not> is_WebAuthnError (ErrorObj ''Error'' ''options was missing required publicKey property'')"
  unfolding identifyRegistrationError_def using assms
  by (simp add: new_Error_def alloc_def is_WebAuthnError_def lookup_def)

theorem missing_publicKey_throws_witness:
  "lookup (example_store ''InvalidStateError'' None) 2 = Some (OptionsObj (example_options None))
   \<and> publicKey (example_options None) = None
   \<and> identifyRegistrationError example_isValidDomain \<lparr>hostname = ''localhost''\<rparr>
       (example_store ''InvalidStateError'' None) 0 2 =
         (Inl (Throw 3),
          example_store ''InvalidStateError'' None @
            [ErrorObj ''Error'' ''options was missing required publicKey property''])"
  using missing_publicKey_throws
    [where h = "example_store ''InvalidStateError'' None" and options = 2 and error = 0
       and opts = "example_options None"
       and isValidDomain = example_isValidDomain and win = "\<lparr>hostname = ''localhost''\<rparr>"]
  by (simp add: example_lookups example_options_def)

text \<open>
  C4. With \<open>publicKey\<close> present, an error named \<open>NotAllowedError\<close>, or with a name that is
  none of the eight that the function knows, comes back as it is: the same reference, and
  the store untouched, whatever the options hold.
\<close>

theorem unlisted_name_passes_through:
  assumes "lookup h options = Some (OptionsObj opts)" and "publicKey opts = Some pk"
    and "lookup h error = Some (ErrorObj name msg)"
    and "name = ''NotAllowedError'' \<or>
         name \<notin> {''AbortError'', ''ConstraintError'', ''InvalidStateError'', ''NotAllowedError'',
                  ''NotSupportedError'', ''SecurityError'', ''TypeError'', ''UnknownError''}"
  shows "identifyRegistrationError isValidDomain win h error options = (Inr error, h)"
  unfolding identifyRegistrationError_def using assms
  by auto

theorem unlisted_name_passes_through_witness:
  "identifyRegistrationError example_isValidDomain \<lparr>hostname = ''localhost''\<rparr>
     (example_store ''NotAllowedError'' (Some example_publicKey)) 0 2 =
       (Inr 0, example_store ''NotAllowedError'' (Some example_publicKey))
   \<and> identifyRegistrationError example_isValidDomain \<lparr>hostname = ''localhost''\<rparr>
       (example_store ''DataError'' (Some example_publicKey)) 0 2 =
         (Inr 0, example_store ''DataError'' (Some example_publicKey))"
  using unlisted_name_passes_through
    [where h = "example_store ''NotAllowedError'' (Some example_publicKey)"
       and options = 2 and error = 0 and name = "''NotAllowedError''"
       and msg = "''The operation failed''"
       and opts = "example_options (Some example_publicKey)" and pk = example_publicKey
       and isValidDomain = example_isValidDomain and win = "\<lparr>hostname = ''localhost''\<rparr>"]
    unlisted_name_passes_through
    [where h = "example_store ''DataError'' (Some example_publicKey)"
       and options = 2 and error = 0 and name = "''DataError''"
       and msg = "''The operation failed''"
       and opts = "example_options (Some example_publicKey)" and pk = example_publicKey
       and isValidDomain = example_isValidDomain and win = "\<lparr>hostname = ''localhost''\<rparr>"]
  by (simp add: example_lookups example_options_def)

text \<open>
  C5. For a \<open>ConstraintError\<close> (with \<open>publicKey\<close> present): if
  \<open>authenticatorSelection.requireResidentKey\<close> is \<open>true\<close>, the result is a new
  \<open>WebAuthnError\<close> with the message about discoverable credentials, also when
  \<open>userVerification\<close> is \<open>"required"\<close> at the same time; otherwise, if \<open>userVerification\<close> is
  \<open>"required"\<close>, the message is the one about user verification; otherwise the given error
  is returned and the store is unchanged.
\<close>

theorem constraint_error_branch:
  assumes "lookup h options = Some (OptionsObj opts)" and "publicKey opts = Some pk"
    and "lookup h error = Some (ErrorObj name msg)" and "name = ''ConstraintError''"
  shows "identifyRegistrationError isValidDomain win h error options =
     (if \<exists>a. authenticatorSelection pk = Some a \<and> requireResidentKey a = Some True
      then (Inr (length h),
            h @ [WebAuthnErrorObj
                   ''Discoverable credentials were required but no available authenticator supported it''
                   error])
      else if \<exists>a. authenticatorSelection pk = Some a \<and> userVerification a = Some ''required''
      then (Inr (length h),
            h @ [WebAuthnErrorObj
                   ''User verification was required but no available authenticator supported it''
                   error])
      else (Inr error, h))"
proof (cases "authenticatorSelection pk")
  case None
  with assms show ?thesis
    unfolding identifyRegistrationError_def by simp
next
  case (Some a)
  with assms show ?thesis
    unfolding identifyRegistrationError_def by (simp add: diagnostic)
qed

theorem constraint_error_branch_witness:
  "identifyRegistrationError example_isValidDomain \<lparr>hostname = ''localhost''\<rparr>
     (example_store ''ConstraintError'' (Some example_publicKey)) 0 2 =
       (Inr 3,
        example_store ''ConstraintError'' (Some example_publicKey) @
          [WebAuthnErrorObj
             ''Discoverable credentials were required but no available authenticator supported it'' 0])
   \<and> identifyRegistrationError example_isValidDomain \<lparr>hostname = ''localhost''\<rparr>
       (example_store ''ConstraintError''
          (Some (example_publicKey\<lparr>authenticatorSelection :=
             Some \<lparr>requireResidentKey = Some False, userVerification = Some ''required''\<rparr>\<rparr>))) 0 2 =
       (Inr 3,
        example_store ''ConstraintError''
          (Some (example_publicKey\<lparr>authenticatorSelection :=
             Some \<lparr>requireResidentKey = Some False, userVerification = Some ''required''\<rparr>\<rparr>)) @
          [WebAuthnErrorObj
             ''User verification was required but no available authenticator supported it'' 0])
   \<and> identifyRegistrationError example_isValidDomain \<lparr>hostname = ''localhost''\<rparr>
       (example_store ''ConstraintError''
          (Some (example_publicKey\<lparr>authenticatorSelection := None\<rparr>))) 0 2 =
       (Inr 0,
        example_store ''ConstraintError'' (Some (example_publicKey\<lparr>authenticatorSelection := None\<rparr>)))"
  using constraint_error_branch
    [where h = "example_store ''ConstraintError'' (Some example_publicKey)"
       and options = 2 and error = 0 and name = "''ConstraintError''"
       and msg = "''The operation failed''"
       and opts = "example_options (Some example_publicKey)" and pk = example_publicKey
       and isValidDomain = example_isValidDomain and win = "\<lparr>hostname = ''localhost''\<rparr>"]
    constraint_error_branch
    [where h = "example_store ''ConstraintError''
          (Some (example_publicKey\<lparr>authenticatorSelection :=
             Some \<lparr>requireResidentKey = Some False, userVerification = Some ''required''\<rparr>\<rparr>))"
       and options = 2 and error = 0 and name = "''ConstraintError''"
       and msg = "''The operation failed''"
       and opts = "example_options (Some (example_publicKey\<lparr>authenticatorSelection :=
             Some \<lparr>requireResidentKey = Some False, userVerification = Some ''required''\<rparr>\<rparr>))"
       and pk = "example_publicKey\<lparr>authenticatorSelection :=
             Some \<lparr>requireResidentKey = Some False, userVerification = Some ''required''\<rparr>\<rparr>"
       and isValidDomain = example_isValidDomain and win = "\<lparr>hostname = ''localhost''\<rparr>"]
    constraint_error_branch
    [where h = "example_store ''ConstraintError''
          (Some (example_publicKey\<lparr>authenticatorSelection := None\<rparr>))"
       and options = 2 and error = 0 and name = "''ConstraintError''"
       and msg = "''The operation failed''"
       and opts = "example_options (Some (example_publicKey\<lparr>authenticatorSelection := None\<rparr>))"
       and pk = "example_publicKey\<lparr>authenticatorSelection := None\<rparr>"
       and isValidDomain = example_isValidDomain and win = "\<lparr>hostname = ''localhost''\<rparr>"]
  by (simp add: example_lookups example_options_def example_publicKey_def)

text \<open>
  C6. For a \<open>SecurityError\<close> (with \<open>publicKey\<close> present): if the host name of the page
  fails \<open>isValidDomain\<close>, the result is a new \<open>WebAuthnError\<close> whose message is that host
  name followed by " is an invalid domain"; otherwise, if \<open>rp.id\<close> differs from the host
  name, the message is "The RP ID", \<open>rp.id\<close> in quotes, "is invalid for this domain";
  otherwise the given error is returned and the store is unchanged.
\<close>

theorem security_error_branch:
  assumes "lookup h options = Some (OptionsObj opts)" and "publicKey opts = Some pk"
    and "lookup h error = Some (ErrorObj name msg)" and "name = ''SecurityError''"
  shows \<open>identifyRegistrationError isValidDomain win h error options =
     (if \<not> isValidDomain (hostname win)
      then (Inr (length h),
            h @ [WebAuthnErrorObj (hostname win @ '' is an invalid domain'') error])
      else if rp_id (rp pk) \<noteq> Some (hostname win)
      then (Inr (length h),
            h @ [WebAuthnErrorObj
                   (''The RP ID "'' @ template_string (rp_id (rp pk)) @
                    ''" is invalid for this domain'')
                   error])
      else (Inr error, h))\<close>
  unfolding identifyRegistrationError_def using assms
  by (simp add: diagnostic)

theorem security_error_branch_witness:
  \<open>identifyRegistrationError example_isValidDomain \<lparr>hostname = ''bad_host''\<rparr>
     (example_store ''SecurityError'' (Some example_publicKey)) 0 2 =
       (Inr 3,
        example_store ''SecurityError'' (Some example_publicKey) @
          [WebAuthnErrorObj ''bad_host is an invalid domain'' 0])
   \<and> identifyRegistrationError example_isValidDomain \<lparr>hostname = ''localhost''\<rparr>
       (example_store ''SecurityError'' (Some example_publicKey)) 0 2 =
       (Inr 3,
        example_store ''SecurityError'' (Some example_publicKey) @
          [WebAuthnErrorObj ''The RP ID "example.com" is invalid for this domain'' 0])
   \<and> identifyRegistrationError example_isValidDomain \<lparr>hostname = ''example.com''\<rparr>
       (example_store ''SecurityError'' (Some example_publicKey)) 0 2 =
       (Inr 0, example_store ''SecurityError'' (Some example_publicKey))\<close>
  using security_error_branch
    [where h = "example_store ''SecurityError'' (Some example_publicKey)"
       and options = 2 and error = 0 and name = "''SecurityError''"
       and msg = "''The operation failed''"
       and opts = "example_options (Some example_publicKey)" and pk = example_publicKey
       and isValidDomain = example_isValidDomain and win = "\<lparr>hostname = ''bad_host''\<rparr>"]
    security_error_branch
    [where h = "example_store ''SecurityError'' (Some example_publicKey)"
       and options = 2 and error = 0 and name = "''SecurityError''"
       and msg = "''The operation failed''"
       and opts = "example_options (Some example_publicKey)" and pk = example_publicKey
       and isValidDomain = example_isValidDomain and win = "\<lparr>hostname = ''localhost''\<rparr>"]
    security_error_branch
    [where h = "example_store ''SecurityError'' (Some example_publicKey)"
       and options = 2 and error = 0 and name = "''SecurityError''"
       and msg = "''The operation failed''"
       and opts = "example_options (Some example_publicKey)" and pk = example_publicKey
       and isValidDomain = example_isValidDomain and win = "\<lparr>hostname = ''example.com''\<rparr>"]
  by (simp add: example_lookups example_options_def example_publicKey_def
        example_isValidDomain_def template_string_def)

text \<open>
  C7. A \<open>NotSupportedError\<close> (with \<open>publicKey\<close> present) is never passed through: the
  result is a new \<open>WebAuthnError\<close>, whose message is "No entry in pubKeyCredParams was of
  type "public-key"" when no entry of \<open>pubKeyCredParams\<close> has the type \<open>public-key\<close> (as
  when the list is empty), and "No available authenticator supported any of the specified
  pubKeyCredParams algorithms" when some entry has.
\<close>

theorem not_supported_error_branch:
  assumes "lookup h options = Some (OptionsObj opts)" and "publicKey opts = Some pk"
    and "lookup h error = Some (ErrorObj name msg)" and "name = ''NotSupportedError''"
  shows \<open>identifyRegistrationError isValidDomain win h error options =
     (Inr (length h),
      h @ [WebAuthnErrorObj
             (if filter (\<lambda>param. param_type param = ''public-key'') (pubKeyCredParams pk) = []
              then ''No entry in pubKeyCredParams was of type "public-key"''
              else ''No available authenticator supported any of the specified pubKeyCredParams algorithms'')
             error])
     \<and> fst (identifyRegistrationError isValidDomain win h error options) \<noteq> Inr error\<close>
proof -
  from assms(3) have "error < length h"
    by (simp add: lookup_def split: if_splits)
  with assms show ?thesis
    unfolding identifyRegistrationError_def by (simp add: diagnostic)
qed

theorem not_supported_error_branch_witness:
  \<open>identifyRegistrationError example_isValidDomain \<lparr>hostname = ''localhost''\<rparr>
     (example_store ''NotSupportedError'' (Some (example_publicKey\<lparr>pubKeyCredParams := []\<rparr>))) 0 2 =
       (Inr 3,
        example_store ''NotSupportedError'' (Some (example_publicKey\<lparr>pubKeyCredParams := []\<rparr>)) @
          [WebAuthnErrorObj ''No entry in pubKeyCredParams was of type "public-key"'' 0])
   \<and> identifyRegistrationError example_isValidDomain \<lparr>hostname = ''localhost''\<rparr>
       (example_store ''NotSupportedError'' (Some example_publicKey)) 0 2 =
       (Inr 3,
        example_store ''NotSupportedError'' (Some example_publicKey) @
          [WebAuthnErrorObj
             ''No available authenticator supported any of the specified pubKeyCredParams algorithms''
             0])\<close>
  using not_supported_error_branch
    [where h = "example_store ''NotSupportedError'' (Some (example_publicKey\<lparr>pubKeyCredParams := []\<rparr>))"
       and options = 2 and error = 0 and name = "''NotSupportedError''"
       and msg = "''The operation failed''"
       and opts = "example_options (Some (example_publicKey\<lparr>pubKeyCredParams := []\<rparr>))"
       and pk = "example_publicKey\<lparr>pubKeyCredParams := []\<rparr>"
       and isValidDomain = example_isValidDomain and win = "\<lparr>hostname = ''localhost''\<rparr>"]
    not_supported_error_branch
    [where h = "example_store ''NotSupportedError'' (Some example_publicKey)"
       and options = 2 and error = 0 and name = "''NotSupportedError''"
       and msg = "''The operation failed''"
       and opts = "example_options (Some example_publicKey)" and pk = example_publicKey
       and isValidDomain = example_isValidDomain and win = "\<lparr>hostname = ''localhost''\<rparr>"]
  by (simp add: example_lookups example_options_def example_publicKey_def)

text \<open>
  C8. For a \<open>TypeError\<close> (with \<open>publicKey\<close> present): if the byte length of \<open>user.id\<close> is
  below 1 or above 64, the result is a new \<open>WebAuthnError\<close> with the message "User ID was
  not between 1 and 64 characters"; for every length from 1 to 64, both included, the given
  error is returned and the store is unchanged.
\<close>

theorem type_error_branch:
  assumes "lookup h options = Some (OptionsObj opts)" and "publicKey opts = Some pk"
    and "lookup h error = Some (ErrorObj name msg)" and "name = ''TypeError''"
  shows "identifyRegistrationError isValidDomain win h error options =
     (if 1 \<le> byteLength (user_id (user pk)) \<and> byteLength (user_id (user pk)) \<le> 64
      then (Inr error, h)
      else (Inr (length h),
            h @ [WebAuthnErrorObj ''User ID was not between 1 and 64 characters'' error]))"
  unfolding identifyRegistrationError_def using assms
  by (auto simp add: diagnostic)

theorem type_error_branch_witness:
  "identifyRegistrationError example_isValidDomain \<lparr>hostname = ''localhost''\<rparr>
     (example_store ''TypeError'' (Some (example_publicKey\<lparr>user := \<lparr>user_id = []\<rparr>\<rparr>))) 0 2 =
       (Inr 3,
        example_store ''TypeError'' (Some (example_publicKey\<lparr>user := \<lparr>user_id = []\<rparr>\<rparr>)) @
          [WebAuthnErrorObj ''User ID was not between 1 and 64 characters'' 0])
   \<and> identifyRegistrationError example_isValidDomain \<lparr>hostname = ''localhost''\<rparr>
       (example_store ''TypeError'' (Some (example_publicKey\<lparr>user := \<lparr>user_id = [7]\<rparr>\<rparr>))) 0 2 =
       (Inr 0, example_store ''TypeError'' (Some (example_publicKey\<lparr>user := \<lparr>user_id = [7]\<rparr>\<rparr>)))
   \<and> identifyRegistrationError example_isValidDomain \<lparr>hostname = ''localhost''\<rparr>
       (example_store ''TypeError'' (Some example_publicKey)) 0 2 =
       (Inr 0, example_store ''TypeError'' (Some example_publicKey))
   \<and> identifyRegistrationError example_isValidDomain \<lparr>hostname = ''localhost''\<rparr>
       (example_store ''TypeError''
          (Some (example_publicKey\<lparr>user := \<lparr>user_id = replicate 65 0\<rparr>\<rparr>))) 0 2 =
       (Inr 3,
        example_store ''TypeError''
          (Some (example_publicKey\<lparr>user := \<lparr>user_id = replicate 65 0\<rparr>\<rparr>)) @
          [WebAuthnErrorObj ''User ID was not between 1 and 64 characters'' 0])"
  using type_error_branch
    [where h = "example_store ''TypeError'' (Some (example_publicKey\<lparr>user := \<lparr>user_id = []\<rparr>\<rparr>))"
       and options = 2 and error = 0 and name = "''TypeError''"
       and msg = "''The operation failed''"
       and opts = "example_options (Some (example_publicKey\<lparr>user := \<lparr>user_id = []\<rparr>\<rparr>))"
       and pk = "example_publicKey\<lparr>user := \<lparr>user_id = []\<rparr>\<rparr>"
       and isValidDomain = example_isValidDomain and win = "\<lparr>hostname = ''localhost''\<rparr>"]
    type_error_branch
    [where h = "example_store ''TypeError'' (Some (example_publicKey\<lparr>user := \<lparr>user_id = [7]\<rparr>\<rparr>))"
       and options = 2 and error = 0 and name = "''TypeError''"
       and msg = "''The operation failed''"
       and opts = "example_options (Some (example_publicKey\<lparr>user := \<lparr>user_id = [7]\<rparr>\<rparr>))"
       and pk = "example_publicKey\<lparr>user := \<lparr>user_id = [7]\<rparr>\<rparr>"
       and isValidDomain = example_isValidDomain and win = "\<lparr>hostname = ''localhost''\<rparr>"]
    type_error_branch
    [where h = "example_store ''TypeError'' (Some example_publicKey)"
       and options = 2 and error = 0 and name = "''TypeError''"
       and msg = "''The operation failed''"
       and opts = "example_options (Some example_publicKey)" and pk = example_publicKey
       and isValidDomain = example_isValidDomain and win = "\<lparr>hostname = ''localhost''\<rparr>"]
    type_error_branch
    [where h = "example_store ''TypeError''
          (Some (example_publicKey\<lparr>user := \<lparr>user_id = replicate 65 0\<rparr>\<rparr>))"
       and options = 2 and error = 0 and name = "''TypeError''"
       and msg = "''The operation failed''"
       and opts = "example_options (Some (example_publicKey\<lparr>user := \<lparr>user_id = replicate 65 0\<rparr>\<rparr>))"
       and pk = "example_publicKey\<lparr>user := \<lparr>user_id = replicate 65 0\<rparr>\<rparr>"
       and isValidDomain = example_isValidDomain and win = "\<lparr>hostname = ''localhost''\<rparr>"]
  by (simp add: example_lookups example_options_def example_publicKey_def byteLength_def)

text \<open>
  C9. With \<open>publicKey\<close> present, an \<open>InvalidStateError\<close> always gives a new
  \<open>WebAuthnError\<close> with the message "The authenticator was previously registered" and the
  given error as cause, and an \<open>UnknownError\<close> always gives one with the message "The
  authenticator was unable to process the specified options, or could not create a new
  credential", whatever the options hold.
\<close>

theorem invalid_state_and_unknown_error_branches:
  assumes "lookup h options = Some (OptionsObj opts)" and "publicKey opts = Some pk"
    and "lookup h error = Some (ErrorObj name msg)"
  shows "(name = ''InvalidStateError'' \<longrightarrow>
           identifyRegistrationError isValidDomain win h error options =
             (Inr (length h),
              h @ [WebAuthnErrorObj ''The authenticator was previously registered'' error]))
       \<and> (name = ''UnknownError'' \<longrightarrow>
           identifyRegistrationError isValidDomain win h error options =
             (Inr (length h),
              h @ [WebAuthnErrorObj
                     ''The authenticator was unable to process the specified options, or could not create a new credential''
                     error]))"
  unfolding identifyRegistrationError_def using assms
  by (simp add: diagnostic)

theorem invalid_state_and_unknown_error_branches_witness:
  "identifyRegistrationError example_isValidDomain \<lparr>hostname = ''localhost''\<rparr>
     (example_store ''InvalidStateError'' (Some example_publicKey)) 0 2 =
       (Inr 3,
        example_store ''InvalidStateError'' (Some example_publicKey) @
          [WebAuthnErrorObj ''The authenticator was previously registered'' 0])
   \<and> identifyRegistrationError example_isValidDomain \<lparr>hostname = ''localhost''\<rparr>
       (example_store ''UnknownError'' (Some example_publicKey)) 0 2 =
       (Inr 3,
        example_store ''UnknownError'' (Some example_publicKey) @
          [WebAuthnErrorObj
             ''The authenticator was unable to process the specified options, or could not create a new credential''
             0])"
  using invalid_state_and_unknown_error_branches
    [where h = "example_store ''InvalidStateError'' (Some example_publicKey)"
       and options = 2 and error = 0 and name = "''InvalidStateError''"
       and msg = "''The operation failed''"
       and opts = "example_options (Some example_publicKey)" and pk = example_publicKey
       and isValidDomain = example_isValidDomain and win = "\<lparr>hostname = ''localhost''\<rparr>"]
    invalid_state_and_unknown_error_branches
    [where h = "example_store ''UnknownError'' (Some example_publicKey)"
       and options = 2 and error = 0 and name = "''UnknownError''"
       and msg = "''The operation failed''"
       and opts = "example_options (Some example_publicKey)" and pk = example_publicKey
       and isValidDomain = example_isValidDomain and win = "\<lparr>hostname = ''localhost''\<rparr>"]
  by (simp add: example_lookups example_options_def)

text \<open>
  C10. With \<open>publicKey\<close> present, the call changes no object that existed before it, so
  neither \<open>error\<close> nor \<open>options\<close>: the old store is the beginning of the new one. What it
  returns is either the reference \<open>error\<close> itself, or a reference that was not in use
  before and now holds a \<open>WebAuthnError\<close> whose cause is \<open>error\<close>; never both.
\<close>

theorem inputs_kept_and_result_shape:
  assumes "lookup h options = Some (OptionsObj opts)" and "publicKey opts = Some pk"
    and "lookup h error = Some (ErrorObj name msg)"
  shows "\<exists>r h'. identifyRegistrationError isValidDomain win h error options = (Inr r, h')
           \<and> take (length h) h' = h
           \<and> lookup h' error = lookup h error \<and> lookup h' options = lookup h options
           \<and> (r = error \<or>
               (r \<noteq> error \<and> lookup h r = None
                \<and> (\<exists>m. lookup h' r = Some (WebAuthnErrorObj m error))))"
proof -
  from typed_call_shape [OF assms, of isValidDomain win]
  obtain g where
    "identifyRegistrationError isValidDomain win h error options = (Inr error, h @ g)
     \<or> (\<exists>m. identifyRegistrationError isValidDomain win h error options =
              (Inr (length (h @ g)), h @ g @ [WebAuthnErrorObj m error]))"
    by blast
  then show ?thesis
  proof
    assume "identifyRegistrationError isValidDomain win h error options = (Inr error, h @ g)"
    with assms show ?thesis
      by (simp add: lookup_append)
  next
    assume "\<exists>m. identifyRegistrationError isValidDomain win h error options =
                 (Inr (length (h @ g)), h @ g @ [WebAuthnErrorObj m error])"
    then obtain m where call:
      "identifyRegistrationError isValidDomain win h error options =
         (Inr (length (h @ g)), h @ g @ [WebAuthnErrorObj m error])" ..
    have new: "lookup (h @ g @ [WebAuthnErrorObj m error]) (length (h @ g)) =
                 Some (WebAuthnErrorObj m error)"
      by (simp add: lookup_def nth_append)
    have unused: "lookup h (length (h @ g)) = None"
      by (simp add: lookup_def)
    from assms(3) have "error < length h"
      by (simp add: lookup_def split: if_splits)
    then have "length (h @ g) \<noteq> error"
      by simp
    with call new unused assms show ?thesis
      by (simp add: lookup_append)
  qed
qed

theorem inputs_kept_and_result_shape_witness:
  "\<exists>r h'. identifyRegistrationError example_isValidDomain \<lparr>hostname = ''localhost''\<rparr>
             (example_store ''AbortError'' (Some example_publicKey)) 0 2 = (Inr r, h')
           \<and> take 3 h' = example_store ''AbortError'' (Some example_publicKey)
           \<and> lookup h' 0 = Some (ErrorObj ''AbortError'' ''The operation failed'')
           \<and> lookup h' 2 = Some (OptionsObj (example_options (Some example_publicKey)))
           \<and> (r = 0 \<or>
               (r \<noteq> 0 \<and> lookup (example_store ''AbortError'' (Some example_publicKey)) r = None
                \<and> (\<exists>m. lookup h' r = Some (WebAuthnErrorObj m 0))))"
  using inputs_kept_and_result_shape
    [where h = "example_store ''AbortError'' (Some example_publicKey)"
       and options = 2 and error = 0 and name = "''AbortError''"
       and msg = "''The operation failed''"
       and opts = "example_options (Some example_publicKey)" and pk = example_publicKey
       and isValidDomain = example_isValidDomain and win = "\<lparr>hostname = ''localhost''\<rparr>"]
  by (simp add: example_lookups example_options_def)

end
